theory Spec2Isabelle
  imports Main "HOL-Library.Word"
begin

section \<open>The multiply-high primitive of HugeInt\<close>

text \<open>
  The repository's native helper is a single C function,
  \<^verbatim>\<open>src/nativeInterop/cinterop/unsigned_mul_hi.c\<close>:

  \<^verbatim>\<open>uint64_t unsigned_mul_hi(uint64_t x, uint64_t y) {\<close>
  \<^verbatim>\<open>    __uint128_t p = (__uint128_t)x * (__uint128_t)y;\<close>
  \<^verbatim>\<open>    return (uint64_t)(p >> 64);\<close>
  \<^verbatim>\<open>}\<close>

  Its integers are fixed-width and unsigned: \<^verbatim>\<open>uint64_t\<close> is a 64-bit word and
  \<^verbatim>\<open>__uint128_t\<close> a 128-bit word. Multiplication on a word wraps modulo the
  width, \<open>ucast\<close> is C's conversion between unsigned types (value-preserving when
  widening, reduction modulo \<open>2 ^ 64\<close> when narrowing) and \<open>drop_bit\<close> is the
  logical right shift.
\<close>

subsection \<open>Data\<close>

type_synonym u64 = "64 word"
type_synonym u128 = "128 word"

subsection \<open>The function as a value\<close>

text \<open>
  Line by line: the local \<open>p\<close> is the product of the two widened operands, taken in
  128-bit arithmetic; the result is the shifted product, narrowed to 64 bits.
\<close>

definition unsigned_mul_hi :: "u64 \<Rightarrow> u64 \<Rightarrow> u64" where
  "unsigned_mul_hi x y =
     (let p = (ucast x :: u128) * (ucast y :: u128)
      in ucast (drop_bit 64 p))"

subsection \<open>The function as a call\<close>

text \<open>
  C leaves a shift undefined when the shift count is not smaller than the width of the
  promoted left operand; every other operation of the body (conversion between unsigned
  types, unsigned multiplication) is defined for all operands. \<open>shr_u128\<close> is the
  right shift on \<^verbatim>\<open>__uint128_t\<close> with that condition made explicit: \<open>None\<close>
  stands for undefined behaviour.
\<close>

definition shr_u128 :: "u128 \<Rightarrow> nat \<Rightarrow> u128 option" where
  "shr_u128 p n = (if n < 128 then Some (drop_bit n p) else None)"

text \<open>
  A call of the function in a program state \<open>s\<close> (whatever the surrounding program
  keeps in globals and memory). The body names no object other than its parameters and
  its local \<open>p\<close>, so the state is handed back as it came. The call yields \<open>None\<close>
  when an operation of the body is undefined, and the state after the call together
  with the returned value otherwise.
\<close>

definition unsigned_mul_hi_exec :: "'s \<Rightarrow> u64 \<Rightarrow> u64 \<Rightarrow> ('s \<times> u64) option" where
  "unsigned_mul_hi_exec s x y =
     (let p = (ucast x :: u128) * (ucast y :: u128)
      in case shr_u128 p 64 of
           None \<Rightarrow> None
         | Some q \<Rightarrow> Some (s, ucast q))"

section \<open>Arithmetic of the widened product\<close>

lemma unat_u64_lt: "unat (x :: u64) < 2 ^ 64"
  using unsigned_less [of x, where ?'a = nat] by simp

lemma unat_prod_lt: "unat (x :: u64) * unat (y :: u64) < 2 ^ 128"
proof -
  have "unat x * unat y < 2 ^ 64 * 2 ^ 64"
    using unat_u64_lt [of x] unat_u64_lt [of y]
    by (rule mult_strict_mono') simp_all
  then show ?thesis by simp
qed

text \<open>Widening keeps the value.\<close>

lemma unat_widen: "unat (ucast (x :: u64) :: u128) = unat x"
proof -
  have "unat x < 2 ^ 128"
    using unat_u64_lt [of x] by (rule less_trans) simp
  then show ?thesis
    by (simp add: unsigned_ucast_eq take_bit_nat_eq_self_iff)
qed

text \<open>The 128-bit multiplication never wraps: the local \<open>p\<close> is the exact product.\<close>

lemma unat_wide_product:
  "unat ((ucast (x :: u64) :: u128) * (ucast (y :: u64) :: u128)) = unat x * unat y"
proof -
  have "unat ((ucast x :: u128) * (ucast y :: u128)) = unat x * unat y mod 2 ^ 128"
    by (simp add: unat_word_ariths unat_widen)
  also have "\<dots> = unat x * unat y"
    using unat_prod_lt [of x y] by simp
  finally show ?thesis .
qed

text \<open>The narrowing conversion of the result loses nothing either.\<close>

lemma unat_unsigned_mul_hi:
  "unat (unsigned_mul_hi x y) = unat x * unat y div 2 ^ 64"
proof -
  let ?p = "(ucast x :: u128) * (ucast y :: u128)"
  have small: "unat x * unat y div 2 ^ 64 < 2 ^ 64"
    using unat_prod_lt [of x y] by (simp add: less_mult_imp_div_less)
  have "unat (drop_bit 64 ?p) = unat ?p div 2 ^ 64"
    unfolding unat_drop_bit_eq by (rule drop_bit_eq_div)
  then have shifted: "unat (drop_bit 64 ?p) = unat x * unat y div 2 ^ 64"
    by (simp only: unat_wide_product)
  have "unat (ucast (drop_bit 64 ?p) :: u64) = take_bit 64 (unat (drop_bit 64 ?p))"
    by (simp only: unsigned_ucast_eq) simp
  also have "\<dots> = unat x * unat y div 2 ^ 64"
    unfolding shifted using small by (simp only: take_bit_nat_eq_self_iff)
  finally show ?thesis
    by (simp only: unsigned_mul_hi_def Let_def)
qed

text \<open>Multiplication of the widened operands is symmetric, and so is the function.\<close>

lemma unsigned_mul_hi_sym: "unsigned_mul_hi x y = unsigned_mul_hi y x"
  by (simp add: unsigned_mul_hi_def mult.commute)

text \<open>A larger left operand never gives a smaller high half.\<close>

lemma unsigned_mul_hi_mono_left:
  assumes "x \<le> x'"
  shows "unsigned_mul_hi x y \<le> unsigned_mul_hi x' y"
proof -
  from assms have "unat x * unat y \<le> unat x' * unat y"
    by (simp add: word_le_nat_alt mult_le_mono1)
  then have "unat x * unat y div 2 ^ 64 \<le> unat x' * unat y div 2 ^ 64"
    by (rule div_le_mono)
  then show ?thesis
    by (simp only: word_le_nat_alt unat_unsigned_mul_hi)
qed

text \<open>The high half stays below a nonzero left operand, the right one being below \<open>2 ^ 64\<close>.\<close>

lemma unsigned_mul_hi_less_left:
  assumes "1 \<le> x"
  shows "unsigned_mul_hi x y < x"
proof -
  from assms have "0 < unat x"
    by (simp add: word_le_nat_alt)
  then have "unat x * unat y < unat x * 2 ^ 64"
    using unat_u64_lt [of y] by simp
  then have "unat x * unat y div 2 ^ 64 < unat x"
    by (rule less_mult_imp_div_less)
  then show ?thesis
    by (simp only: word_less_nat_alt unat_unsigned_mul_hi)
qed

text \<open>
  The shift count of the body is the constant 64, below the width 128, so the call is
  defined; it returns the value of \<open>unsigned_mul_hi\<close> and the state it was given.
\<close>

lemma unsigned_mul_hi_exec_eq:
  "unsigned_mul_hi_exec s x y = Some (s, unsigned_mul_hi x y)"
  by (simp add: unsigned_mul_hi_exec_def shr_u128_def unsigned_mul_hi_def Let_def)


section \<open>The contract\<close>

text \<open>
  C1. For every pair of unsigned 64-bit integers \<open>x\<close> and \<open>y\<close>, the result of
  \<open>unsigned_mul_hi x y\<close>, read as a natural number, is the floor of the exact
  (unbounded) product of the operands divided by \<open>2 ^ 64\<close>.
\<close>

theorem unsigned_mul_hi_floor:
  "unat (unsigned_mul_hi x y) = (unat x * unat y) div 2 ^ 64"
  by (rule unat_unsigned_mul_hi)

text \<open>
  C2. The function is total: for every pair of unsigned 64-bit integers and in every
  program state the call is defined and returns a value (no operation of the body is
  undefined, so there is nothing to trap on), and the 128-bit intermediate holds the
  exact product, so the multiplication never overflows it.
\<close>

theorem unsigned_mul_hi_total:
  "(\<exists>r. unsigned_mul_hi_exec s x y = Some (s, r)) \<and>
   unat ((ucast x :: u128) * (ucast y :: u128)) = unat x * unat y"
  by (simp add: unsigned_mul_hi_exec_eq unat_wide_product)

text \<open>
  C3. Commutativity: for every pair of unsigned 64-bit integers \<open>x\<close> and \<open>y\<close>,
  \<open>unsigned_mul_hi x y\<close> equals \<open>unsigned_mul_hi y x\<close>.
\<close>

theorem unsigned_mul_hi_commute:
  "unsigned_mul_hi x y = unsigned_mul_hi y x"
  by (rule unsigned_mul_hi_sym)

text \<open>
  C4. Zero is absorbing on either side: \<open>unsigned_mul_hi x 0\<close> is 0 for every
  \<open>x\<close>, and \<open>unsigned_mul_hi 0 y\<close> is 0 for every \<open>y\<close>.
\<close>

theorem unsigned_mul_hi_zero:
  "unsigned_mul_hi x 0 = 0 \<and> unsigned_mul_hi 0 y = 0"
  by (simp add: unsigned_mul_hi_def)

text \<open>
  C5. Multiplying by one leaves the high half empty: \<open>unsigned_mul_hi x 1\<close> is 0
  for every unsigned 64-bit integer \<open>x\<close>.
\<close>

theorem unsigned_mul_hi_one:
  "unsigned_mul_hi x 1 = 0"
proof -
  have "unat (unsigned_mul_hi x 1) = unat x div 2 ^ 64"
    by (simp add: unat_unsigned_mul_hi)
  also have "\<dots> = 0"
    using unat_u64_lt [of x] by simp
  finally show ?thesis
    by (simp only: unat_eq_0)
qed

text \<open>
  C6. At the maximum inputs the result is \<open>2 ^ 64 - 2\<close>: with both operands
  \<^verbatim>\<open>0xFFFFFFFFFFFFFFFF\<close>, which is \<open>2 ^ 64 - 1\<close>, the function returns
  \<^verbatim>\<open>0xFFFFFFFFFFFFFFFE\<close>, which is \<open>2 ^ 64 - 2\<close>.
\<close>

theorem unsigned_mul_hi_max:
  "unsigned_mul_hi 0xFFFFFFFFFFFFFFFF 0xFFFFFFFFFFFFFFFF = 0xFFFFFFFFFFFFFFFE \<and>
   unat (0xFFFFFFFFFFFFFFFF :: u64) = 2 ^ 64 - 1 \<and>
   unat (0xFFFFFFFFFFFFFFFE :: u64) = 2 ^ 64 - 2"
  by (simp add: unsigned_mul_hi_def)

text \<open>
  C7. Power-of-two scaling: \<open>unsigned_mul_hi (2 ^ 63) 2\<close> is 1 and
  \<open>unsigned_mul_hi (2 ^ 32) (2 ^ 32)\<close> is 1 (both powers are below \<open>2 ^ 64\<close>,
  so the 64-bit operands are the powers themselves).
\<close>

theorem unsigned_mul_hi_pow2:
  "unsigned_mul_hi (2 ^ 63) 2 = 1 \<and> unsigned_mul_hi (2 ^ 32) (2 ^ 32) = 1 \<and>
   unat (2 ^ 63 :: u64) = 2 ^ 63 \<and> unat (2 ^ 32 :: u64) = 2 ^ 32"
  by (simp add: unsigned_mul_hi_def)

text \<open>
  C8. Spot values: \<open>unsigned_mul_hi 0xFFFFFFFFFFFFFFFF 2\<close> is 1, and
  \<open>unsigned_mul_hi 1000000007 1000000009\<close> is 0.
\<close>

theorem unsigned_mul_hi_spot:
  "unsigned_mul_hi 0xFFFFFFFFFFFFFFFF 2 = 1 \<and>
   unsigned_mul_hi 1000000007 1000000009 = 0"
  by (simp add: unsigned_mul_hi_def)

text \<open>
  C9. The function is deterministic and free of side effects: called with the same
  operands in any two program states, it returns the same value in both and leaves each
  state as it found it, so the result depends on nothing but \<open>x\<close> and \<open>y\<close>.
\<close>

theorem unsigned_mul_hi_pure:
  "\<exists>r. unsigned_mul_hi_exec s x y = Some (s, r) \<and>
       unsigned_mul_hi_exec s' x y = Some (s', r)"
  by (simp add: unsigned_mul_hi_exec_eq)

text \<open>
  C10. The function is monotone non-decreasing in each argument, and its result is
  strictly below \<open>x\<close> whenever \<open>x\<close> is at least 1 and strictly below \<open>y\<close>
  whenever \<open>y\<close> is at least 1.
\<close>

theorem unsigned_mul_hi_monotone:
  "(x \<le> x' \<longrightarrow> unsigned_mul_hi x y \<le> unsigned_mul_hi x' y) \<and>
   (y \<le> y' \<longrightarrow> unsigned_mul_hi x y \<le> unsigned_mul_hi x y') \<and>
   (1 \<le> x \<longrightarrow> unsigned_mul_hi x y < x) \<and>
   (1 \<le> y \<longrightarrow> unsigned_mul_hi x y < y)"
proof (intro conjI impI)
  assume "x \<le> x'"
  then show "unsigned_mul_hi x y \<le> unsigned_mul_hi x' y"
    by (rule unsigned_mul_hi_mono_left)
next
  assume "y \<le> y'"
  then have "unsigned_mul_hi y x \<le> unsigned_mul_hi y' x"
    by (rule unsigned_mul_hi_mono_left)
  then show "unsigned_mul_hi x y \<le> unsigned_mul_hi x y'"
    by (simp only: unsigned_mul_hi_sym [of x])
next
  assume "1 \<le> x"
  then show "unsigned_mul_hi x y < x"
    by (rule unsigned_mul_hi_less_left)
next
  assume "1 \<le> y"
  then have "unsigned_mul_hi y x < y"
    by (rule unsigned_mul_hi_less_left)
  then show "unsigned_mul_hi x y < y"
    by (simp only: unsigned_mul_hi_sym [of x])
qed

text \<open>
  The four hypotheses hold together at \<open>x = 2 ^ 63\<close>, \<open>x' = 2 ^ 64 - 1\<close>,
  \<open>y = 4\<close>, \<open>y' = 6\<close>, where the high halves are 2, 3 and 3.
\<close>

theorem unsigned_mul_hi_monotone_witness:
  "(2 ^ 63 :: u64) \<le> 0xFFFFFFFFFFFFFFFF \<and> (4 :: u64) \<le> 6 \<and>
   (1 :: u64) \<le> 2 ^ 63 \<and> (1 :: u64) \<le> 4 \<and>
   unsigned_mul_hi (2 ^ 63) 4 \<le> unsigned_mul_hi 0xFFFFFFFFFFFFFFFF 4 \<and>
   unsigned_mul_hi (2 ^ 63) 4 \<le> unsigned_mul_hi (2 ^ 63) 6 \<and>
   unsigned_mul_hi (2 ^ 63) 4 < 2 ^ 63 \<and>
   unsigned_mul_hi (2 ^ 63) 4 < 4"
  using unsigned_mul_hi_monotone [of "2 ^ 63" "0xFFFFFFFFFFFFFFFF" 4 6]
  by simp

end
